theory Spec2Isabelle
  imports Main "HOL-Library.Word" "HOL-Library.List_Lexorder"
begin

section \<open>DateCollator: comparing dates by configured date parts\<close>

text \<open>
  A shallow embedding of \<^verbatim>\<open>src/DateCollator.js\<close>: the constructor with its option
  defaults and validation, and \<^verbatim>\<open>compareUnbound\<close>, the function the \<^verbatim>\<open>compare\<close>
  getter binds to the instance. Everything that raises in the JavaScript is a value
  \<open>Inl e\<close> of the result type \<open>error + 'a\<close>.
\<close>

subsection \<open>JavaScript strings\<close>

text \<open>
  A JavaScript string is a sequence of 16-bit code units, and \<^verbatim>\<open><\<close> and \<^verbatim>\<open>>\<close> on two
  strings compare them lexicographically by code unit, a proper prefix being smaller.
  That is the order of lists over a linear order, so \<open>s < t\<close> on \<open>jsstring\<close> below is the
  JavaScript comparison.
\<close>

type_synonym jsstring = "16 word list"

definition js :: "string \<Rightarrow> jsstring" where
  "js s = map of_char s"

subsection \<open>Errors\<close>

text \<open>
  The classes of the exceptions the code can raise. Message texts are not modelled.
  \<open>ReferenceError x\<close> is what evaluating the identifier \<open>x\<close> raises where no binding of
  \<open>x\<close> is in scope. \<open>Thrown\<close> stands for any exception raised by code that the caller
  supplies (a \<^verbatim>\<open>toString\<close> method of an argument).
\<close>

datatype error =
    TypeError
  | RangeError
  | ReferenceError string
  | Error
  | Thrown

subsection \<open>The host: time zone\<close>

text \<open>
  ECMAScript leaves the local time zone to the implementation. \<open>LocalTZA h t\<close> is the
  offset of local time from UTC, in milliseconds, at the time value \<open>t\<close>; \<open>tzName h t\<close>
  is the implementation-defined suffix of \<^verbatim>\<open>Date.prototype.toString\<close> (empty, or a
  space and the zone's name in parentheses).
\<close>

record host =
  LocalTZA :: "int \<Rightarrow> int"
  tzName :: "int \<Rightarrow> jsstring"

definition utc_host :: host where
  "utc_host = \<lparr> LocalTZA = (\<lambda>t. 0), tzName = (\<lambda>t. js '' (Coordinated Universal Time)'') \<rparr>"

subsection \<open>Date: time values and their components (ECMA-262, Date objects)\<close>

text \<open>
  A time value is a number of milliseconds since 1970-01-01T00:00:00Z. The functions
  below are the abstract operations of ECMA-262 by the same names; \<open>div\<close> and \<open>mod\<close> on
  \<open>int\<close> are floor division and the non-negative remainder, as the standard's are.
\<close>

definition msPerDay :: int where "msPerDay = 86400000"
definition msPerHour :: int where "msPerHour = 3600000"
definition msPerMinute :: int where "msPerMinute = 60000"
definition msPerSecond :: int where "msPerSecond = 1000"

definition Day :: "int \<Rightarrow> int" where
  "Day t = t div msPerDay"

definition DaysInYear :: "int \<Rightarrow> int" where
  "DaysInYear y =
     (if y mod 4 \<noteq> 0 then 365
      else if y mod 100 \<noteq> 0 then 366
      else if y mod 400 \<noteq> 0 then 365
      else 366)"

definition DayFromYear :: "int \<Rightarrow> int" where
  "DayFromYear y =
     365 * (y - 1970) + (y - 1969) div 4 - (y - 1901) div 100 + (y - 1601) div 400"

text \<open>
  \<open>YearFromTime t\<close> is the largest \<open>y\<close> with \<open>DayFromYear y \<le> Day t\<close>. A year has
  365.2425 days on average, which locates \<open>y\<close> up to one year; the three candidates are
  tried from the largest down.
\<close>

definition YearFromTime :: "int \<Rightarrow> int" where
  "YearFromTime t =
     (let d = Day t; e = 1970 + (d * 400) div 146097
      in if DayFromYear (e + 1) \<le> d then e + 1
         else if DayFromYear e \<le> d then e
         else e - 1)"

definition DayWithinYear :: "int \<Rightarrow> int" where
  "DayWithinYear t = Day t - DayFromYear (YearFromTime t)"

definition InLeapYear :: "int \<Rightarrow> int" where
  "InLeapYear t = (if DaysInYear (YearFromTime t) = 365 then 0 else 1)"

definition MonthFromTime :: "int \<Rightarrow> int" where
  "MonthFromTime t =
     (let d = DayWithinYear t; l = InLeapYear t
      in if d < 31 then 0
         else if d < 59 + l then 1
         else if d < 90 + l then 2
         else if d < 120 + l then 3
         else if d < 151 + l then 4
         else if d < 181 + l then 5
         else if d < 212 + l then 6
         else if d < 243 + l then 7
         else if d < 273 + l then 8
         else if d < 304 + l then 9
         else if d < 334 + l then 10
         else 11)"

definition DateFromTime :: "int \<Rightarrow> int" where
  "DateFromTime t =
     (let d = DayWithinYear t; l = InLeapYear t; m = MonthFromTime t
      in if m = 0 then d + 1
         else if m = 1 then d - 30
         else if m = 2 then d - 58 - l
         else if m = 3 then d - 89 - l
         else if m = 4 then d - 119 - l
         else if m = 5 then d - 150 - l
         else if m = 6 then d - 180 - l
         else if m = 7 then d - 211 - l
         else if m = 8 then d - 242 - l
         else if m = 9 then d - 272 - l
         else if m = 10 then d - 303 - l
         else d - 333 - l)"

definition WeekDay :: "int \<Rightarrow> int" where
  "WeekDay t = (Day t + 4) mod 7"

definition HourFromTime :: "int \<Rightarrow> int" where
  "HourFromTime t = (t div msPerHour) mod 24"

definition MinFromTime :: "int \<Rightarrow> int" where
  "MinFromTime t = (t div msPerMinute) mod 60"

definition SecFromTime :: "int \<Rightarrow> int" where
  "SecFromTime t = (t div msPerSecond) mod 60"

definition msFromTime :: "int \<Rightarrow> int" where
  "msFromTime t = t mod msPerSecond"

definition LocalTime :: "host \<Rightarrow> int \<Rightarrow> int" where
  "LocalTime h t = t + LocalTZA h t"

text \<open>
  The accessors of \<^verbatim>\<open>Date.prototype\<close> that \<^verbatim>\<open>compareUnbound\<close> calls, on a time value
  that is not NaN (the code calls them only after checking that).
\<close>

definition getFullYear :: "host \<Rightarrow> int \<Rightarrow> int" where
  "getFullYear h t = YearFromTime (LocalTime h t)"
definition getMonth :: "host \<Rightarrow> int \<Rightarrow> int" where
  "getMonth h t = MonthFromTime (LocalTime h t)"
definition getDate :: "host \<Rightarrow> int \<Rightarrow> int" where
  "getDate h t = DateFromTime (LocalTime h t)"
definition getDay :: "host \<Rightarrow> int \<Rightarrow> int" where
  "getDay h t = WeekDay (LocalTime h t)"
definition getHours :: "host \<Rightarrow> int \<Rightarrow> int" where
  "getHours h t = HourFromTime (LocalTime h t)"
definition getMinutes :: "host \<Rightarrow> int \<Rightarrow> int" where
  "getMinutes h t = MinFromTime (LocalTime h t)"
definition getSeconds :: "host \<Rightarrow> int \<Rightarrow> int" where
  "getSeconds h t = SecFromTime (LocalTime h t)"
definition getMilliseconds :: "host \<Rightarrow> int \<Rightarrow> int" where
  "getMilliseconds h t = msFromTime (LocalTime h t)"

definition getUTCFullYear :: "int \<Rightarrow> int" where
  "getUTCFullYear t = YearFromTime t"
definition getUTCMonth :: "int \<Rightarrow> int" where
  "getUTCMonth t = MonthFromTime t"
definition getUTCDate :: "int \<Rightarrow> int" where
  "getUTCDate t = DateFromTime t"
definition getUTCDay :: "int \<Rightarrow> int" where
  "getUTCDay t = WeekDay t"
definition getUTCHours :: "int \<Rightarrow> int" where
  "getUTCHours t = HourFromTime t"
definition getUTCMinutes :: "int \<Rightarrow> int" where
  "getUTCMinutes t = MinFromTime t"
definition getUTCSeconds :: "int \<Rightarrow> int" where
  "getUTCSeconds t = SecFromTime t"
definition getUTCMilliseconds :: "int \<Rightarrow> int" where
  "getUTCMilliseconds t = msFromTime t"

subsection \<open>Date.prototype.toString\<close>

fun decimal :: "nat \<Rightarrow> string" where
  "decimal n =
     (if n < 10 then [char_of (48 + n)]
      else decimal (n div 10) @ [char_of (48 + n mod 10)])"

declare decimal.simps [simp del]

definition ToZeroPaddedDecimalString :: "int \<Rightarrow> nat \<Rightarrow> jsstring" where
  "ToZeroPaddedDecimalString n minLength =
     (let s = decimal (nat n)
      in js (replicate (minLength - length s) (CHR ''0'') @ s))"

definition weekdayName :: "int \<Rightarrow> jsstring" where
  "weekdayName d =
     (if d = 0 then js ''Sun''
      else if d = 1 then js ''Mon''
      else if d = 2 then js ''Tue''
      else if d = 3 then js ''Wed''
      else if d = 4 then js ''Thu''
      else if d = 5 then js ''Fri''
      else js ''Sat'')"

definition monthName :: "int \<Rightarrow> jsstring" where
  "monthName m =
     (if m = 0 then js ''Jan''
      else if m = 1 then js ''Feb''
      else if m = 2 then js ''Mar''
      else if m = 3 then js ''Apr''
      else if m = 4 then js ''May''
      else if m = 5 then js ''Jun''
      else if m = 6 then js ''Jul''
      else if m = 7 then js ''Aug''
      else if m = 8 then js ''Sep''
      else if m = 9 then js ''Oct''
      else if m = 10 then js ''Nov''
      else js ''Dec'')"

definition DateString :: "int \<Rightarrow> jsstring" where
  "DateString tv =
     (let weekday = weekdayName (WeekDay tv);
          month = monthName (MonthFromTime tv);
          day = ToZeroPaddedDecimalString (DateFromTime tv) 2;
          yv = YearFromTime tv;
          yearSign = (if 0 \<le> yv then js [] else js ''-'');
          paddedYear = ToZeroPaddedDecimalString \<bar>yv\<bar> 4
      in weekday @ js '' '' @ month @ js '' '' @ day @ js '' '' @ yearSign @ paddedYear)"

definition TimeString :: "int \<Rightarrow> jsstring" where
  "TimeString tv =
     (let hour = ToZeroPaddedDecimalString (HourFromTime tv) 2;
          minute = ToZeroPaddedDecimalString (MinFromTime tv) 2;
          second = ToZeroPaddedDecimalString (SecFromTime tv) 2
      in hour @ js '':'' @ minute @ js '':'' @ second @ js '' '' @ js ''GMT'')"

definition TimeZoneString :: "host \<Rightarrow> int \<Rightarrow> jsstring" where
  "TimeZoneString h tv =
     (let offset = LocalTZA h tv;
          offsetSign = (if 0 \<le> offset then js ''+'' else js ''-'');
          absOffset = \<bar>offset\<bar>;
          offsetMin = ToZeroPaddedDecimalString (MinFromTime absOffset) 2;
          offsetHour = ToZeroPaddedDecimalString (HourFromTime absOffset) 2
      in offsetSign @ offsetHour @ offsetMin @ tzName h tv)"

text \<open>\<open>None\<close> is the time value NaN of an invalid Date.\<close>

definition ToDateString :: "host \<Rightarrow> int option \<Rightarrow> jsstring" where
  "ToDateString h tv =
     (case tv of
        None \<Rightarrow> js ''Invalid Date''
      | Some tv \<Rightarrow>
          (let t = LocalTime h tv
           in DateString t @ js '' '' @ TimeString t @ TimeZoneString h tv))"

subsection \<open>The arguments of compare\<close>

text \<open>
  \<^verbatim>\<open>compareUnbound\<close> accepts any two values (\<^verbatim>\<open>@param {Date|*}\<close>). It looks at an
  argument in two ways only: whether it is a Date with a time value that is not NaN
  (and then through the accessors above), and through \<^verbatim>\<open>String(value)\<close>. So a value
  that is neither \<^verbatim>\<open>undefined\<close>, \<^verbatim>\<open>null\<close> nor a Date object is given by the outcome of
  \<^verbatim>\<open>String\<close> on it: its text, or the exception the conversion raises
  (\<^verbatim>\<open>String(Object.create(null))\<close> raises a TypeError, since the object has neither
  \<^verbatim>\<open>toString\<close> nor \<^verbatim>\<open>valueOf\<close>; a \<^verbatim>\<open>toString\<close> method of the caller's may raise
  anything). A missing argument is \<^verbatim>\<open>undefined\<close>. \<open>Date\<close> is a Date object with the
  built-in methods of \<^verbatim>\<open>Date.prototype\<close>; \<open>None\<close> is the time value NaN. Not modelled
  are values on which \<^verbatim>\<open>instanceof Date\<close> holds or runs code of the caller without
  their being such Date objects: an object that merely inherits from
  \<^verbatim>\<open>Date.prototype\<close>, a Date whose accessors the caller has replaced, a Proxy.
\<close>

datatype jsval =
    Undefined
  | Null
  | Date "int option"
  | Other "error + jsstring"

fun String :: "host \<Rightarrow> jsval \<Rightarrow> error + jsstring" where
  "String h Undefined = Inr (js ''undefined'')"
| "String h Null = Inr (js ''null'')"
| "String h (Date tv) = Inr (ToDateString h tv)"
| "String h (Other outcome) = outcome"

subsection \<open>The options of the constructor\<close>

text \<open>
  The value of a property of the \<^verbatim>\<open>options\<close> argument, as far as the constructor looks
  at it: \<^verbatim>\<open>||\<close> asks whether it is truthy, \<^verbatim>\<open>Array.isArray\<close> whether it is an array,
  \<^verbatim>\<open>includes\<close> whether it is the same value as one of the tag strings, and the template
  literal of an error message converts it to a string. \<open>OptUndefined\<close> is also a
  property that is absent. \<open>OptOther b e\<close> is any other value (a boolean, a number, an
  object that is not an array): \<open>b\<close> says whether it is truthy and \<open>e\<close> is the exception
  that converting it to a string raises, if any.
\<close>

datatype optval =
    OptUndefined
  | OptNull
  | OptString jsstring
  | OptArray "optval list"
  | OptOther bool "error option"

fun ToBoolean :: "optval \<Rightarrow> bool" where
  "ToBoolean OptUndefined = False"
| "ToBoolean OptNull = False"
| "ToBoolean (OptString s) = (s \<noteq> [])"
| "ToBoolean (OptArray xs) = True"
| "ToBoolean (OptOther b e) = b"

text \<open>
  The exception that \<^verbatim>\<open>`${value}`\<close> raises, if any. An array is joined from the
  conversions of its elements, in order; \<^verbatim>\<open>undefined\<close> and \<^verbatim>\<open>null\<close> elements become
  the empty string.
\<close>

fun firstSome :: "'a option list \<Rightarrow> 'a option" where
  "firstSome [] = None"
| "firstSome (None # xs) = firstSome xs"
| "firstSome (Some e # xs) = Some e"

fun templateError :: "optval \<Rightarrow> error option" where
  "templateError OptUndefined = None"
| "templateError OptNull = None"
| "templateError (OptString s) = None"
| "templateError (OptArray xs) = firstSome (map templateError xs)"
| "templateError (OptOther b e) = e"

record options =
  dateSensitivity :: optval
  dateUsage :: optval

text \<open>
  \<^verbatim>\<open>this.hidden.options\<close> of a constructed instance. The constructor returns only after
  \<^verbatim>\<open>Array.isArray\<close> has held of \<^verbatim>\<open>dateSensitivity\<close>, so the instance holds the array's
  elements.
\<close>

record hidden =
  hidden_dateSensitivity :: "optval list"
  hidden_dateUsage :: optval

text \<open>\<^verbatim>\<open>Object.values(DateCollator.DateSensitivity)\<close> and \<^verbatim>\<open>Object.values(DateCollator.DateUsage)\<close>.\<close>

definition DateSensitivity :: "jsstring list" where
  "DateSensitivity =
     [js ''era'', js ''year'', js ''month'', js ''weekday'',
      js ''day'', js ''dayPeriod'', js ''hour'', js ''minute'',
      js ''second'', js ''fractionalSecond'']"

definition DateUsage :: "jsstring list" where
  "DateUsage = [js ''local'', js ''utc'']"

text \<open>
  \<^verbatim>\<open>Array.prototype.includes\<close> on an array of strings: the value is a primitive string
  equal to an element.
\<close>

fun array_includes :: "jsstring list \<Rightarrow> optval \<Rightarrow> bool" where
  "array_includes vs (OptString s) = (s \<in> set vs)"
| "array_includes vs v = False"

definition defaultDateSensitivity :: "optval list" where
  "defaultDateSensitivity =
     [OptString (js ''year''), OptString (js ''month''), OptString (js ''day''),
      OptString (js ''hour''), OptString (js ''minute''), OptString (js ''second''),
      OptString (js ''fractionalSecond'')]"

subsection \<open>The constructor\<close>

text \<open>
  \<^verbatim>\<open>new DateCollator(_locales, options)\<close>; \<^verbatim>\<open>_locales\<close> is never read. \<open>None\<close> is an
  \<^verbatim>\<open>options\<close> argument that is missing, \<^verbatim>\<open>undefined\<close> or \<^verbatim>\<open>null\<close>, which line 62
  replaces by \<^verbatim>\<open>{}\<close>.

  Lines 69 to 74 are
  \<^verbatim>\<open>else if( dateSensitivity.some(( eachDateSensitivity, _s, _every ) => !Object.values( DateCollator.DateSensitivity ).includes( eachDateSensitivity )))\<close>
  \<^verbatim>\<open>{throw( new RangeError( `Value '${eachDateSensitivity}' out of range ...` ));}\<close>
  The template literal of the message is evaluated in the scope of the constructor,
  where \<^verbatim>\<open>eachDateSensitivity\<close>, a parameter of the callback of \<^verbatim>\<open>some\<close>, is not
  bound: evaluating it raises a ReferenceError before the RangeError is created.
\<close>

definition DateCollator :: "options option \<Rightarrow> error + hidden" where
  "DateCollator options =
     (let opts = (case options of
                    None \<Rightarrow> \<lparr> dateSensitivity = OptUndefined, dateUsage = OptUndefined \<rparr>
                  | Some opts \<Rightarrow> opts);
          sensitivity = (if ToBoolean (dateSensitivity opts) then dateSensitivity opts
                         else OptArray defaultDateSensitivity);
          usage = (if ToBoolean (dateUsage opts) then dateUsage opts
                   else OptString (js ''local''))
      in case sensitivity of
           OptArray everyDateSensitivity \<Rightarrow>
             if list_ex (\<lambda>eachDateSensitivity. \<not> array_includes DateSensitivity eachDateSensitivity)
                  everyDateSensitivity
             then Inl (ReferenceError ''eachDateSensitivity'')
             else if \<not> array_includes DateUsage usage
             then (case templateError usage of
                     Some e \<Rightarrow> Inl e
                   | None \<Rightarrow> Inl RangeError)
             else Inr \<lparr> hidden_dateSensitivity = everyDateSensitivity,
                        hidden_dateUsage = usage \<rparr>
         | _ \<Rightarrow> Inl TypeError)"

subsection \<open>compare\<close>

text \<open>
  The first parameter of \<^verbatim>\<open>datePartReducer\<close> is whatever \<^verbatim>\<open>reduce\<close> passes: a number or
  not. The reducer returns \<^verbatim>\<open>difference\<close>, a number once the check of line 116 has
  passed.
\<close>

datatype accumulator = Number int | NotNumber

fun datePartReducer :: "accumulator \<Rightarrow> int \<times> int \<Rightarrow> error + int" where
  "datePartReducer NotNumber partPair = Inl TypeError"
| "datePartReducer (Number difference) partPair =
     Inr (if difference = 0 then fst partPair - snd partPair else difference)"

text \<open>
  \<^verbatim>\<open>Array.prototype.reduce\<close> with a number as initial value, and \<^verbatim>\<open>Array.prototype.map\<close>;
  an exception of the callback ends either.
\<close>

fun reduce :: "(accumulator \<Rightarrow> 'a \<Rightarrow> error + int) \<Rightarrow> int \<Rightarrow> 'a list \<Rightarrow> error + int" where
  "reduce f initialValue [] = Inr initialValue"
| "reduce f initialValue (x # xs) =
     (case f (Number initialValue) x of
        Inl e \<Rightarrow> Inl e
      | Inr accumulated \<Rightarrow> reduce f accumulated xs)"

fun map_array :: "('a \<Rightarrow> error + 'b) \<Rightarrow> 'a list \<Rightarrow> error + 'b list" where
  "map_array f [] = Inr []"
| "map_array f (x # xs) =
     (case f x of
        Inl e \<Rightarrow> Inl e
      | Inr y \<Rightarrow> (case map_array f xs of Inl e \<Rightarrow> Inl e | Inr ys \<Rightarrow> Inr (y # ys)))"

text \<open>
  The callback of \<^verbatim>\<open>map\<close>, lines 135 to 227, for two time values that are not NaN.
  \<^verbatim>\<open>Math.floor(hours / 12)\<close> is \<open>div 12\<close> and \<^verbatim>\<open>Math.sign\<close> is \<open>sgn\<close>. The message of
  the last \<^verbatim>\<open>default\<close> reads \<^verbatim>\<open>this.options.dateUsage\<close>, and \<^verbatim>\<open>this.options\<close> is
  \<^verbatim>\<open>undefined\<close>: a TypeError.
\<close>

definition partPair :: "host \<Rightarrow> optval \<Rightarrow> optval \<Rightarrow> int \<Rightarrow> int \<Rightarrow> error + int \<times> int" where
  "partPair h usage eachDateSensitivity leftDate rightDate =
     (if usage = OptString (js ''local'') then
        (if eachDateSensitivity = OptString (js ''day'')
           then Inr (getDate h leftDate, getDate h rightDate)
         else if eachDateSensitivity = OptString (js ''dayPeriod'')
           then Inr (getHours h leftDate div 12, getHours h rightDate div 12)
         else if eachDateSensitivity = OptString (js ''era'')
           then Inr (sgn (getFullYear h leftDate), sgn (getFullYear h rightDate))
         else if eachDateSensitivity = OptString (js ''hour'')
           then Inr (getHours h leftDate, getHours h rightDate)
         else if eachDateSensitivity = OptString (js ''minute'')
           then Inr (getMinutes h leftDate, getMinutes h rightDate)
         else if eachDateSensitivity = OptString (js ''second'')
           then Inr (getSeconds h leftDate, getSeconds h rightDate)
         else if eachDateSensitivity = OptString (js ''month'')
           then Inr (getMonth h leftDate, getMonth h rightDate)
         else if eachDateSensitivity = OptString (js ''weekday'')
           then Inr (getDay h leftDate, getDay h rightDate)
         else if eachDateSensitivity = OptString (js ''year'')
           then Inr (getFullYear h leftDate, getFullYear h rightDate)
         else if eachDateSensitivity = OptString (js ''fractionalSecond'')
           then Inr (getMilliseconds h leftDate, getMilliseconds h rightDate)
         else Inl Error)
      else if usage = OptString (js ''utc'') then
        (if eachDateSensitivity = OptString (js ''day'')
           then Inr (getUTCDate leftDate, getUTCDate rightDate)
         else if eachDateSensitivity = OptString (js ''dayPeriod'')
           then Inr (getUTCHours leftDate div 12, getUTCHours rightDate div 12)
         else if eachDateSensitivity = OptString (js ''era'')
           then Inr (sgn (getUTCFullYear leftDate), sgn (getUTCFullYear rightDate))
         else if eachDateSensitivity = OptString (js ''hour'')
           then Inr (getUTCHours leftDate, getUTCHours rightDate)
         else if eachDateSensitivity = OptString (js ''minute'')
           then Inr (getUTCMinutes leftDate, getUTCMinutes rightDate)
         else if eachDateSensitivity = OptString (js ''second'')
           then Inr (getUTCSeconds leftDate, getUTCSeconds rightDate)
         else if eachDateSensitivity = OptString (js ''month'')
           then Inr (getUTCMonth leftDate, getUTCMonth rightDate)
         else if eachDateSensitivity = OptString (js ''weekday'')
           then Inr (getUTCDay leftDate, getUTCDay rightDate)
         else if eachDateSensitivity = OptString (js ''year'')
           then Inr (getUTCFullYear leftDate, getUTCFullYear rightDate)
         else if eachDateSensitivity = OptString (js ''fractionalSecond'')
           then Inr (getUTCMilliseconds leftDate, getUTCMilliseconds rightDate)
         else Inl Error)
      else Inl TypeError)"

text \<open>Lines 134 to 228: both arguments are Dates with the time values \<open>leftDate\<close>, \<open>rightDate\<close>.\<close>

definition differenceOfDates :: "host \<Rightarrow> hidden \<Rightarrow> int \<Rightarrow> int \<Rightarrow> error + int" where
  "differenceOfDates h this leftDate rightDate =
     (case map_array (\<lambda>eachDateSensitivity.
               partPair h (hidden_dateUsage this) eachDateSensitivity leftDate rightDate)
             (hidden_dateSensitivity this) of
        Inl e \<Rightarrow> Inl e
      | Inr partPairs \<Rightarrow> reduce datePartReducer 0 partPairs)"

text \<open>Lines 232 to 236: the left argument is converted first.\<close>

definition differenceOfStrings :: "host \<Rightarrow> jsval \<Rightarrow> jsval \<Rightarrow> error + int" where
  "differenceOfStrings h leftDate rightDate =
     (case String h leftDate of
        Inl e \<Rightarrow> Inl e
      | Inr leftString \<Rightarrow>
          (case String h rightDate of
             Inl e \<Rightarrow> Inl e
           | Inr rightString \<Rightarrow>
               Inr (if leftString < rightString then - 1
                    else if leftString > rightString then 1
                    else 0)))"

text \<open>
  Lines 130 to 237: \<^verbatim>\<open>areBothValidDates\<close> holds exactly of two Date objects whose
  \<^verbatim>\<open>getTime()\<close> is not NaN, the first equation; every other pair takes the \<^verbatim>\<open>else\<close>.
\<close>

fun difference :: "host \<Rightarrow> hidden \<Rightarrow> jsval \<Rightarrow> jsval \<Rightarrow> error + int" where
  "difference h this (Date (Some leftDate)) (Date (Some rightDate)) =
     differenceOfDates h this leftDate rightDate"
| "difference h this leftDate rightDate = differenceOfStrings h leftDate rightDate"

text \<open>Line 239, \<^verbatim>\<open>Math.min( Math.max( -1, difference ), +1 )\<close>, ends both branches.\<close>

definition compareUnbound :: "host \<Rightarrow> hidden \<Rightarrow> jsval \<Rightarrow> jsval \<Rightarrow> error + int" where
  "compareUnbound h this leftDate rightDate =
     (case difference h this leftDate rightDate of
        Inl e \<Rightarrow> Inl e
      | Inr d \<Rightarrow> Inr (min (max (- 1) d) 1))"

subsection \<open>Notions used in the statements\<close>

text \<open>
  \<^verbatim>\<open>areBothValidDates\<close> is the conjunction of \<open>isValidDate\<close> of both arguments, and
  \<open>isArray\<close> is \<^verbatim>\<open>Array.isArray\<close>.
\<close>

fun isValidDate :: "jsval \<Rightarrow> bool" where
  "isValidDate (Date (Some t)) = True"
| "isValidDate v = False"

fun isArray :: "optval \<Rightarrow> bool" where
  "isArray (OptArray xs) = True"
| "isArray v = False"

text \<open>
  The value the reducer's documentation promises: zero if all pairs are equal, or the
  first difference that is not zero.
\<close>

fun firstDifference :: "(int \<times> int) list \<Rightarrow> int" where
  "firstDifference [] = 0"
| "firstDifference (pair # pairs) =
     (if fst pair - snd pair \<noteq> 0 then fst pair - snd pair
      else firstDifference pairs)"

text \<open>
  The comparison of two valid dates in the words of the specification: for each
  DatePart in configured order a pair of components is extracted with the accessors
  that \<^verbatim>\<open>dateUsage\<close> selects; the first DatePart whose pair differs determines the sign
  of the result, and the parts after it are never evaluated; if all configured parts
  are equal the result is 0.
\<close>

fun shortCircuit :: "host \<Rightarrow> optval \<Rightarrow> optval list \<Rightarrow> int \<Rightarrow> int \<Rightarrow> error + int" where
  "shortCircuit h usage [] leftDate rightDate = Inr 0"
| "shortCircuit h usage (datePart # dateParts) leftDate rightDate =
     (case partPair h usage datePart leftDate rightDate of
        Inl e \<Rightarrow> Inl e
      | Inr (leftComponent, rightComponent) \<Rightarrow>
          if leftComponent \<noteq> rightComponent
          then Inr (sgn (leftComponent - rightComponent))
          else shortCircuit h usage dateParts leftDate rightDate)"

text \<open>
  \<^verbatim>\<open>new DateCollator()\<close>, the \<^verbatim>\<open>defaultCollator\<close> of the repository's tests, and two of
  its dates on a host whose local time is UTC: \<^verbatim>\<open>new Date( 2020, 2, 23, 17, 0 )\<close>, the
  tests' \<^verbatim>\<open>anyValidDate\<close>, a Monday; and \<^verbatim>\<open>new Date( 2020, 2, 27, 17, 0 )\<close>, the Friday
  of the same week.
\<close>

definition defaultCollator :: hidden where
  "defaultCollator =
     \<lparr> hidden_dateSensitivity = defaultDateSensitivity,
       hidden_dateUsage = OptString (js ''local'') \<rparr>"

definition date2020_03_23T17_00 :: int where
  "date2020_03_23T17_00 = 1584982800000"

definition date2020_03_27T17_00 :: int where
  "date2020_03_27T17_00 = 1585328400000"

section \<open>The model of Date\<close>

text \<open>
  \<open>YearFromTime\<close> meets its definition in ECMA-262: the largest year whose first day
  is not after the day of the time value.
\<close>

lemma floor_div_bounds:
  fixes x :: int
  shows "4 * (x div 4) \<le> x" "x < 4 * (x div 4) + 4"
    "100 * (x div 100) \<le> x" "x < 100 * (x div 100) + 100"
    "400 * (x div 400) \<le> x" "x < 400 * (x div 400) + 400"
    "146097 * (x div 146097) \<le> x" "x < 146097 * (x div 146097) + 146097"
  by (simp_all add: algebra_simps)

lemma DayFromYear_bounds:
  "146097 * y - 287811596 \<le> 400 * DayFromYear y"
  "400 * DayFromYear y \<le> 146097 * y - 287810501"
proof -
  define a where "a = (y - 1969) div 4"
  define b where "b = (y - 1901) div 100"
  define c where "c = (y - 1601) div 400"
  have a: "4 * a \<le> y - 1969" "y - 1969 < 4 * a + 4"
    unfolding a_def by (rule floor_div_bounds)+
  have b: "100 * b \<le> y - 1901" "y - 1901 < 100 * b + 100"
    unfolding b_def by (rule floor_div_bounds)+
  have c: "400 * c \<le> y - 1601" "y - 1601 < 400 * c + 400"
    unfolding c_def by (rule floor_div_bounds)+
  have d: "400 * DayFromYear y = 146000 * y - 287620000 + 400 * a - 400 * b + 400 * c"
    by (simp add: DayFromYear_def a_def b_def c_def)
  show "146097 * y - 287811596 \<le> 400 * DayFromYear y"
    unfolding d using a b c by linarith
  show "400 * DayFromYear y \<le> 146097 * y - 287810501"
    unfolding d using a b c by linarith
qed

lemma DayFromYear_strict_mono: "DayFromYear y < DayFromYear (y + 1)"
proof -
  have "(y - 1969) div 4 \<le> (y + 1 - 1969) div 4"
    by (rule zdiv_mono1) simp_all
  moreover have "(y + 1 - 1901) div 100 \<le> (y - 1901) div 100 + 1"
  proof -
    have "(y + 1 - 1901) div 100 \<le> (y - 1901 + 100) div 100"
      by (rule zdiv_mono1) simp_all
    then show ?thesis by simp
  qed
  moreover have "(y - 1601) div 400 \<le> (y + 1 - 1601) div 400"
    by (rule zdiv_mono1) simp_all
  moreover have "DayFromYear (y + 1) =
      365 * y - 718685 + (y + 1 - 1969) div 4 - (y + 1 - 1901) div 100 + (y + 1 - 1601) div 400"
    by (simp add: DayFromYear_def)
  moreover have "DayFromYear y =
      365 * y - 719050 + (y - 1969) div 4 - (y - 1901) div 100 + (y - 1601) div 400"
    by (simp add: DayFromYear_def)
  ultimately show ?thesis
    by simp
qed

lemma DayFromYear_mono: "a \<le> b \<Longrightarrow> DayFromYear a \<le> DayFromYear b"
proof -
  have "DayFromYear a \<le> DayFromYear (a + int n)" for n
  proof (induction n)
    case 0
    then show ?case by simp
  next
    case (Suc n)
    have eq: "a + int (Suc n) = a + int n + 1" by simp
    show ?case
      unfolding eq using Suc DayFromYear_strict_mono [of "a + int n"] by linarith
  qed
  from this [of "nat (b - a)"] show "a \<le> b \<Longrightarrow> DayFromYear a \<le> DayFromYear b"
    by simp
qed

lemma YearFromTime_correct:
  "DayFromYear (YearFromTime t) \<le> Day t \<and> Day t < DayFromYear (YearFromTime t + 1)"
proof -
  define d where "d = Day t"
  define e where "e = 1970 + (d * 400) div 146097"
  define q where "q = (d * 400) div 146097"
  have q: "146097 * q \<le> d * 400" "d * 400 < 146097 * q + 146097"
    unfolding q_def by (rule floor_div_bounds)+
  have eq: "e = 1970 + q" by (simp add: e_def q_def)
  have lo: "DayFromYear (e - 1) \<le> d"
    using DayFromYear_bounds(2) [of "e - 1"] q(1) unfolding eq by (simp add: algebra_simps)
  have hi: "d < DayFromYear (e + 2)"
    using DayFromYear_bounds(1) [of "e + 2"] q(2) unfolding eq by (simp add: algebra_simps)
  have y: "YearFromTime t =
      (if DayFromYear (e + 1) \<le> d then e + 1 else if DayFromYear e \<le> d then e else e - 1)"
    by (simp add: YearFromTime_def Let_def d_def e_def)
  have e2: "e + 1 + 1 = e + 2" "e - 1 + 1 = e" by simp_all
  show ?thesis
    unfolding y d_def [symmetric] using lo hi by (simp add: e2)
qed

lemma YearFromTime_largest:
  assumes "DayFromYear y \<le> Day t"
  shows "y \<le> YearFromTime t"
proof (rule ccontr)
  assume "\<not> y \<le> YearFromTime t"
  then have "YearFromTime t + 1 \<le> y" by simp
  then have "DayFromYear (YearFromTime t + 1) \<le> DayFromYear y"
    by (rule DayFromYear_mono)
  with YearFromTime_correct [of t] assms show False by linarith
qed

text \<open>The two dates of the examples, as \<^verbatim>\<open>String\<close> prints them on a host in UTC.\<close>

lemma ToDateString_date2020_03_23T17_00:
  "ToDateString utc_host (Some date2020_03_23T17_00) =
     js ''Mon Mar 23 2020 17:00:00 GMT+0000 (Coordinated Universal Time)''"
  by code_simp

lemma ToDateString_date2020_03_27T17_00:
  "ToDateString utc_host (Some date2020_03_27T17_00) =
     js ''Fri Mar 27 2020 17:00:00 GMT+0000 (Coordinated Universal Time)''"
  by code_simp

section \<open>Strings\<close>

lemma of_char_word16_eq_iff: "(of_char c :: 16 word) = of_char d \<longleftrightarrow> c = d"
proof
  assume h: "(of_char c :: 16 word) = of_char d"
  have lt: "(of_char e :: nat) < 2 ^ 16" for e
  proof -
    have a: "(of_char e :: nat) < 256"
      by (metis of_char_mod_256 mod_less_divisor zero_less_numeral)
    have b: "(256 :: nat) < 2 ^ 16" by simp
    from a b show ?thesis by (rule less_trans)
  qed
  from h have "(of_nat (of_char c) :: 16 word) = of_nat (of_char d)"
    by (simp only: of_nat_of_char)
  then have "take_bit 16 (of_char c :: nat) = take_bit 16 (of_char d :: nat)"
    by (simp add: word_of_nat_eq_iff)
  then have "(of_char c :: nat) = of_char d"
    by (simp only: take_bit_nat_eq_self [OF lt])
  then show "c = d" by simp
qed simp

lemma js_eq_iff [simp]: "js a = js b \<longleftrightarrow> a = b"
proof (induction a arbitrary: b)
  case Nil
  then show ?case by (auto simp: js_def)
next
  case (Cons x xs)
  then show ?case by (cases b) (auto simp: js_def of_char_word16_eq_iff)
qed

text \<open>
  The text of a valid date begins with the name of its day of the week: \<open>F\<close> (70),
  \<open>M\<close> (77), \<open>S\<close> (83), \<open>T\<close> (84) or \<open>W\<close> (87).
\<close>

lemma weekdayName_hd:
  "\<exists>c cs. weekdayName d = c # cs \<and> (c = 70 \<or> c = 77 \<or> c = 83 \<or> c = 84 \<or> c = 87)"
  by (simp add: weekdayName_def js_def)

lemma weekdayName_Friday: "\<exists>cs. weekdayName 5 = 70 # cs"
  by (simp add: weekdayName_def js_def)

lemma weekdayName_not_Friday:
  "d \<noteq> 5 \<Longrightarrow> \<exists>c cs. weekdayName d = c # cs \<and> (c = 77 \<or> c = 83 \<or> c = 84 \<or> c = 87)"
  by (simp add: weekdayName_def js_def)

lemma ToDateString_Some:
  "\<exists>rest. ToDateString h (Some t) = weekdayName (getDay h t) @ rest"
  by (simp add: ToDateString_def DateString_def Let_def getDay_def)

lemma ToDateString_Some_hd:
  "\<exists>c cs. ToDateString h (Some t) = c # cs \<and> (c = 70 \<or> c = 77 \<or> c = 83 \<or> c = 84 \<or> c = 87)"
proof -
  obtain c cs where "weekdayName (getDay h t) = c # cs"
    "c = 70 \<or> c = 77 \<or> c = 83 \<or> c = 84 \<or> c = 87"
    using weekdayName_hd by blast
  moreover obtain rest where "ToDateString h (Some t) = weekdayName (getDay h t) @ rest"
    using ToDateString_Some by blast
  ultimately show ?thesis by simp
qed

lemma ToDateString_less_null: "ToDateString h (Some t) < js ''null''"
proof -
  obtain c cs where "ToDateString h (Some t) = c # cs"
    "c = 70 \<or> c = 77 \<or> c = 83 \<or> c = 84 \<or> c = 87"
    using ToDateString_Some_hd by blast
  then show ?thesis by (auto simp: js_def)
qed

lemma ToDateString_less_undefined: "ToDateString h (Some t) < js ''undefined''"
proof -
  obtain c cs where "ToDateString h (Some t) = c # cs"
    "c = 70 \<or> c = 77 \<or> c = 83 \<or> c = 84 \<or> c = 87"
    using ToDateString_Some_hd by blast
  then show ?thesis by (auto simp: js_def)
qed

lemma null_less_undefined: "js ''null'' < js ''undefined''"
  by (simp add: js_def)

lemma Friday_less_Invalid:
  assumes "getDay h t = 5"
  shows "ToDateString h (Some t) < ToDateString h None"
proof -
  obtain cs where "weekdayName (getDay h t) = 70 # cs"
    using weekdayName_Friday assms by auto
  moreover obtain rest where "ToDateString h (Some t) = weekdayName (getDay h t) @ rest"
    using ToDateString_Some by blast
  ultimately obtain ds where "ToDateString h (Some t) = 70 # ds"
    by simp
  then show ?thesis by (simp add: ToDateString_def js_def)
qed

lemma Invalid_less_not_Friday:
  assumes "getDay h t \<noteq> 5"
  shows "ToDateString h None < ToDateString h (Some t)"
proof -
  obtain c cs where "weekdayName (getDay h t) = c # cs" "c = 77 \<or> c = 83 \<or> c = 84 \<or> c = 87"
    using weekdayName_not_Friday [OF assms] by blast
  moreover obtain rest where "ToDateString h (Some t) = weekdayName (getDay h t) @ rest"
    using ToDateString_Some by blast
  ultimately obtain ds where "ToDateString h (Some t) = c # ds"
    by simp
  with \<open>c = 77 \<or> c = 83 \<or> c = 84 \<or> c = 87\<close> show ?thesis
    by (auto simp: ToDateString_def js_def)
qed

section \<open>The constructor\<close>

lemma DateCollator_default: "DateCollator None = Inr defaultCollator"
  by (simp add: DateCollator_def defaultCollator_def defaultDateSensitivity_def
      DateSensitivity_def DateUsage_def)

text \<open>What a constructed instance holds: recognized tags only.\<close>

lemma DateCollator_Inr:
  assumes "DateCollator options = Inr this"
  shows "(\<forall>e \<in> set (hidden_dateSensitivity this). array_includes DateSensitivity e)
     \<and> array_includes DateUsage (hidden_dateUsage this)"
  using assms
  by (auto simp: DateCollator_def Let_def list_ex_iff
      split: option.splits optval.splits if_splits)

text \<open>
  Whatever the unrecognized element and whatever the other option, the constructor
  ends in the ReferenceError of line 74.
\<close>

lemma DateCollator_unrecognized:
  assumes "list_ex (\<lambda>each. \<not> array_includes DateSensitivity each) xs"
  shows "DateCollator (Some \<lparr> dateSensitivity = OptArray xs, dateUsage = usage \<rparr>)
     = Inl (ReferenceError ''eachDateSensitivity'')"
  using assms by (simp add: DateCollator_def Let_def)

section \<open>compare on two valid dates\<close>

lemma partPair_swap:
  assumes "array_includes DateUsage usage" and "array_includes DateSensitivity each"
  shows "\<exists>a b. partPair h usage each l r = Inr (a, b) \<and> partPair h usage each r l = Inr (b, a)"
proof -
  from assms(1) obtain u where u: "usage = OptString u" "u \<in> set DateUsage"
    by (cases usage) auto
  from assms(2) obtain s where s: "each = OptString s" "s \<in> set DateSensitivity"
    by (cases each) auto
  from u(2) have u': "u = js ''local'' \<or> u = js ''utc''"
    by (simp add: DateUsage_def)
  from s(2) have s': "s = js ''era'' \<or> s = js ''year'' \<or> s = js ''month'' \<or> s = js ''weekday''
      \<or> s = js ''day'' \<or> s = js ''dayPeriod'' \<or> s = js ''hour'' \<or> s = js ''minute''
      \<or> s = js ''second'' \<or> s = js ''fractionalSecond''"
    by (simp add: DateSensitivity_def)
  from u' show ?thesis
  proof
    assume "u = js ''local''"
    with s' show ?thesis unfolding u(1) s(1)
      by (elim disjE) (simp_all add: partPair_def)
  next
    assume "u = js ''utc''"
    with s' show ?thesis unfolding u(1) s(1)
      by (elim disjE) (simp_all add: partPair_def)
  qed
qed

lemma map_array_partPair:
  assumes "array_includes DateUsage usage"
    and "\<forall>e \<in> set ps. array_includes DateSensitivity e"
  shows "\<exists>prs. map_array (\<lambda>e. partPair h usage e l r) ps = Inr prs
             \<and> map_array (\<lambda>e. partPair h usage e r l) ps = Inr (map prod.swap prs)"
  using assms(2)
proof (induction ps)
  case Nil
  then show ?case by simp
next
  case (Cons p ps)
  then obtain prs where prs: "map_array (\<lambda>e. partPair h usage e l r) ps = Inr prs"
      "map_array (\<lambda>e. partPair h usage e r l) ps = Inr (map prod.swap prs)"
    by auto
  from Cons.prems have "array_includes DateSensitivity p" by simp
  from partPair_swap [OF assms(1) this, of h l r]
  obtain a b where ab: "partPair h usage p l r = Inr (a, b)" "partPair h usage p r l = Inr (b, a)"
    by blast
  show ?case by (simp add: prs ab)
qed

text \<open>The check of line 116 never fails: \<^verbatim>\<open>reduce\<close> starts from a number.\<close>

lemma reduce_datePartReducer:
  "reduce datePartReducer d ps = Inr (if d \<noteq> 0 then d else firstDifference ps)"
  by (induction ps arbitrary: d) auto

lemma firstDifference_swap: "firstDifference (map prod.swap ps) = - firstDifference ps"
  by (induction ps) auto

lemma clamp_sgn: "min (max (- 1) d) 1 = sgn (d::int)"
  by (simp add: sgn_if)

lemma shortCircuit_firstDifference:
  "map_array (\<lambda>e. partPair h usage e l r) ps = Inr prs \<Longrightarrow>
   shortCircuit h usage ps l r = Inr (sgn (firstDifference prs))"
proof (induction ps arbitrary: prs)
  case Nil
  then show ?case by simp
next
  case (Cons p ps)
  then show ?case
    by (auto split: sum.splits)
qed

lemma compareUnbound_valid:
  assumes "DateCollator options = Inr this"
  shows "\<exists>prs. map_array (\<lambda>e. partPair h (hidden_dateUsage this) e l r)
                  (hidden_dateSensitivity this) = Inr prs
     \<and> compareUnbound h this (Date (Some l)) (Date (Some r)) = Inr (sgn (firstDifference prs))
     \<and> compareUnbound h this (Date (Some r)) (Date (Some l)) = Inr (- sgn (firstDifference prs))"
proof -
  from DateCollator_Inr [OF assms]
  have u: "array_includes DateUsage (hidden_dateUsage this)"
    and s: "\<forall>e \<in> set (hidden_dateSensitivity this). array_includes DateSensitivity e"
    by simp_all
  from map_array_partPair [OF u s, of h l r] obtain prs where
    prs: "map_array (\<lambda>e. partPair h (hidden_dateUsage this) e l r)
            (hidden_dateSensitivity this) = Inr prs"
         "map_array (\<lambda>e. partPair h (hidden_dateUsage this) e r l)
            (hidden_dateSensitivity this) = Inr (map prod.swap prs)"
    by blast
  show ?thesis
    by (rule exI [of _ prs])
       (simp add: prs compareUnbound_def differenceOfDates_def reduce_datePartReducer
          firstDifference_swap clamp_sgn)
qed

section \<open>compare on the string fallback\<close>

lemma difference_fallback:
  "\<not> (isValidDate leftDate \<and> isValidDate rightDate) \<Longrightarrow>
   difference h this leftDate rightDate = differenceOfStrings h leftDate rightDate"
  by (induction h this leftDate rightDate rule: difference.induct) simp_all

lemma compareUnbound_fallback:
  assumes "\<not> (isValidDate leftDate \<and> isValidDate rightDate)"
    and "String h leftDate = Inr leftString" and "String h rightDate = Inr rightString"
  shows "compareUnbound h this leftDate rightDate =
     Inr (if leftString < rightString then - 1 else if rightString < leftString then 1 else 0)"
  using assms(2,3)
  by (simp add: compareUnbound_def difference_fallback [OF assms(1)] differenceOfStrings_def)

lemma compareUnbound_raises_left:
  assumes "String h leftDate = Inl e"
  shows "compareUnbound h this leftDate rightDate = Inl e"
proof -
  from assms have "\<not> (isValidDate leftDate \<and> isValidDate rightDate)"
    by (cases leftDate) auto
  then show ?thesis
    using assms by (simp add: compareUnbound_def difference_fallback differenceOfStrings_def)
qed

text \<open>
  An invalid date against a valid one: the order of the texts is decided by the first
  letter of the day of the week against the \<open>I\<close> of \<open>Invalid Date\<close>, and the dates of
  Fridays alone sort before it.
\<close>

lemma compareUnbound_invalid_valid:
  "compareUnbound h this (Date None) (Date (Some t)) = Inr (if getDay h t = 5 then 1 else - 1)"
proof (cases "getDay h t = 5")
  case True
  from Friday_less_Invalid [OF this] show ?thesis
    using True compareUnbound_fallback [of "Date None" "Date (Some t)" h _ _ this]
    by (auto simp: order.asym)
next
  case False
  from Invalid_less_not_Friday [OF this] show ?thesis
    using False compareUnbound_fallback [of "Date None" "Date (Some t)" h _ _ this]
    by (auto simp: order.asym)
qed

lemma compareUnbound_total:
  assumes "DateCollator options = Inr this"
    and "String h leftDate = Inr leftString" and "String h rightDate = Inr rightString"
  shows "\<exists>n. compareUnbound h this leftDate rightDate = Inr n \<and> (n = - 1 \<or> n = 0 \<or> n = 1)"
proof (cases "isValidDate leftDate \<and> isValidDate rightDate")
  case True
  then obtain l r where lr: "leftDate = Date (Some l)" "rightDate = Date (Some r)"
    by (metis isValidDate.elims(2))
  from compareUnbound_valid [OF assms(1), of h l r] show ?thesis
    unfolding lr by (auto simp: sgn_if)
next
  case False
  from compareUnbound_fallback [OF False assms(2,3)] show ?thesis
    by simp
qed

section \<open>Evaluations\<close>

lemma compare_Monday_Friday:
  "compareUnbound utc_host defaultCollator
     (Date (Some date2020_03_23T17_00)) (Date (Some date2020_03_27T17_00)) = Inr (- 1)"
  "compareUnbound utc_host defaultCollator
     (Date (Some date2020_03_27T17_00)) (Date (Some date2020_03_23T17_00)) = Inr 1"
  by code_simp+

lemma shortCircuit_Monday_Friday:
  "shortCircuit utc_host (hidden_dateUsage defaultCollator) (hidden_dateSensitivity defaultCollator)
     date2020_03_23T17_00 date2020_03_27T17_00 = Inr (- 1)"
  by code_simp

lemma String_examples:
  "String utc_host (Date None) = Inr (js ''Invalid Date'')"
  "String utc_host Null = Inr (js ''null'')"
  "String utc_host Undefined = Inr (js ''undefined'')"
  by (simp_all add: ToDateString_def)

section \<open>The claims\<close>

text \<open>
  C1 (a defect of the code). Claimed: a constructor call whose \<^verbatim>\<open>dateSensitivity\<close> is an
  array with an element that is not a recognized DatePart tag fails with a RangeError
  whose message cites the first offending value. The code builds that message from
  \<^verbatim>\<open>eachDateSensitivity\<close>, which is not in scope at the \<^verbatim>\<open>throw\<close>: the call of the
  repository's test, \<^verbatim>\<open>new DateCollator( null, {dateSensitivity:['millisecond']} )\<close>, fails
  with a ReferenceError, and no RangeError is created.
\<close>

theorem unrecognized_dateSensitivity_raises_ReferenceError:
  "DateCollator (Some \<lparr> dateSensitivity = OptArray [OptString (js ''millisecond'')],
                        dateUsage = OptUndefined \<rparr>)
     = Inl (ReferenceError ''eachDateSensitivity'')"
  by (simp add: DateCollator_def DateSensitivity_def)

text \<open>
  C2 (a defect of the code). Claimed, and tested on a Monday under the name
  \<^verbatim>\<open>anyValidDate\<close>: for every invalid date \<open>i\<close> and valid date \<open>v\<close>, \<open>compare(i, v) < 0\<close> and
  \<open>compare(v, i) > 0\<close>. On a Friday the text of the valid date begins with \<open>F\<close>, which
  sorts before the \<open>I\<close> of \<open>Invalid Date\<close>: with \<^verbatim>\<open>new Date( 2020, 2, 27, 17, 0 )\<close> the two
  results are \<open>+1\<close> and \<open>-1\<close>.
\<close>

theorem invalid_date_sorts_after_a_Friday:
  "compareUnbound utc_host defaultCollator (Date None) (Date (Some date2020_03_27T17_00)) = Inr 1
   \<and> compareUnbound utc_host defaultCollator (Date (Some date2020_03_27T17_00)) (Date None)
       = Inr (- 1)"
  by code_simp

text \<open>
  C3 (corrected). Claimed: for every constructed comparator and every pair of inputs
  of any kind, compare returns and never raises. An argument whose conversion by
  \<^verbatim>\<open>String\<close> raises makes compare raise: \<^verbatim>\<open>compare( Object.create( null ), null )\<close>
  ends in the TypeError of the conversion.
\<close>

theorem compare_raises_counterexample:
  "compareUnbound utc_host defaultCollator (Other (Inl TypeError)) Null = Inl TypeError"
  by (simp add: compareUnbound_def differenceOfStrings_def)

text \<open>
  C3 as amended: for every constructed comparator and every pair of inputs each of
  which is \<^verbatim>\<open>undefined\<close>, \<^verbatim>\<open>null\<close>, a Date object (valid or not) or another value that
  \<^verbatim>\<open>String\<close> converts without raising, compare returns a number; so none of the \<^verbatim>\<open>throw\<close>
  statements inside \<^verbatim>\<open>compareUnbound\<close> (the reducer's check of its first argument, the
  \<^verbatim>\<open>default\<close> cases of the two \<^verbatim>\<open>switch\<close> statements) is reached.
\<close>

theorem compare_returns:
  assumes "DateCollator options = Inr this"
    and "String h leftDate = Inr leftString" and "String h rightDate = Inr rightString"
  shows "\<exists>n. compareUnbound h this leftDate rightDate = Inr n"
  using compareUnbound_total [OF assms] by blast

theorem compare_returns_witness:
  "DateCollator None = Inr defaultCollator
   \<and> String utc_host (Date None) = Inr (js ''Invalid Date'')
   \<and> String utc_host Null = Inr (js ''null'')
   \<and> (\<exists>n. compareUnbound utc_host defaultCollator (Date None) Null = Inr n)"
  using compare_returns [OF DateCollator_default String_examples(1) String_examples(2)]
    DateCollator_default String_examples
  by simp

text \<open>
  C4 (corrected). Claimed: every constructor call in which \<^verbatim>\<open>dateSensitivity\<close> is
  supplied and is not an array fails with a TypeError. Line 63 replaces a falsy value
  by the default before the check: \<^verbatim>\<open>new DateCollator( null, {dateSensitivity:0} )\<close> (or
  \<^verbatim>\<open>false\<close>) constructs the default comparator.
\<close>

theorem falsy_dateSensitivity_counterexample:
  "DateCollator (Some \<lparr> dateSensitivity = OptOther False None, dateUsage = OptUndefined \<rparr>)
     = Inr defaultCollator"
  by (simp add: DateCollator_def defaultCollator_def defaultDateSensitivity_def
      DateSensitivity_def DateUsage_def)

text \<open>
  C4 as amended: every constructor call in which \<^verbatim>\<open>dateSensitivity\<close> is supplied, is
  truthy and is not an array fails with a TypeError.
\<close>

theorem non_array_dateSensitivity_raises_TypeError:
  assumes "ToBoolean sensitivity" and "\<not> isArray sensitivity"
  shows "DateCollator (Some \<lparr> dateSensitivity = sensitivity, dateUsage = usage \<rparr>) = Inl TypeError"
  using assms by (cases sensitivity) (simp_all add: DateCollator_def Let_def)

theorem non_array_dateSensitivity_witness:
  "ToBoolean (OptString (js ''year'')) \<and> \<not> isArray (OptString (js ''year''))
   \<and> DateCollator (Some \<lparr> dateSensitivity = OptString (js ''year''), dateUsage = OptUndefined \<rparr>)
       = Inl TypeError"
  using non_array_dateSensitivity_raises_TypeError
    [of "OptString (js ''year'')" OptUndefined]
  by (simp add: js_def)

text \<open>
  C5. For every constructed comparator and every pair of valid dates, the result of
  computing all part pairs and reducing them is the result of the short-circuit
  lexicographic comparison, which is a number: the sign of the component difference
  at the first configured DatePart whose pair differs, and 0 when every pair is equal.
\<close>

theorem compare_refines_shortCircuit:
  assumes "DateCollator options = Inr this"
  shows "compareUnbound h this (Date (Some leftDate)) (Date (Some rightDate))
       = shortCircuit h (hidden_dateUsage this) (hidden_dateSensitivity this) leftDate rightDate
     \<and> (\<exists>n. shortCircuit h (hidden_dateUsage this) (hidden_dateSensitivity this)
               leftDate rightDate = Inr n)"
proof -
  from compareUnbound_valid [OF assms, of h leftDate rightDate] obtain prs where
    prs: "map_array (\<lambda>e. partPair h (hidden_dateUsage this) e leftDate rightDate)
            (hidden_dateSensitivity this) = Inr prs"
    and c: "compareUnbound h this (Date (Some leftDate)) (Date (Some rightDate))
            = Inr (sgn (firstDifference prs))"
    by blast
  from shortCircuit_firstDifference [OF prs] c show ?thesis by simp
qed

theorem compare_refines_shortCircuit_witness:
  "DateCollator None = Inr defaultCollator
   \<and> compareUnbound utc_host defaultCollator
       (Date (Some date2020_03_23T17_00)) (Date (Some date2020_03_27T17_00)) = Inr (- 1)
   \<and> shortCircuit utc_host (hidden_dateUsage defaultCollator)
       (hidden_dateSensitivity defaultCollator) date2020_03_23T17_00 date2020_03_27T17_00
       = Inr (- 1)"
  using compare_refines_shortCircuit
    [OF DateCollator_default, of utc_host date2020_03_23T17_00 date2020_03_27T17_00]
    DateCollator_default shortCircuit_Monday_Friday
  by simp

text \<open>
  C6. Under any configuration: compare with both arguments absent is 0, and for every
  valid date \<open>v\<close>, \<open>compare(v, null) < 0\<close>, \<open>compare(v, undefined) < 0\<close>,
  \<open>compare(null, undefined) < 0\<close>, \<open>compare(null, v) > 0\<close> and
  \<open>compare(undefined, null) > 0\<close>; whenever the arguments are not both valid dates, the
  result is the sign of the lexicographic comparison of the texts that \<^verbatim>\<open>String\<close> gives
  for them.
\<close>

theorem fallback_order:
  "compareUnbound h this Undefined Undefined = Inr 0
   \<and> compareUnbound h this (Date (Some v)) Null = Inr (- 1)
   \<and> compareUnbound h this (Date (Some v)) Undefined = Inr (- 1)
   \<and> compareUnbound h this Null Undefined = Inr (- 1)
   \<and> compareUnbound h this Null (Date (Some v)) = Inr 1
   \<and> compareUnbound h this Undefined Null = Inr 1
   \<and> (\<not> (isValidDate leftDate \<and> isValidDate rightDate) \<longrightarrow>
        String h leftDate = Inr leftString \<longrightarrow> String h rightDate = Inr rightString \<longrightarrow>
        compareUnbound h this leftDate rightDate =
          Inr (if leftString < rightString then - 1
               else if rightString < leftString then 1 else 0))"
proof -
  have nu: "js ''null'' < js ''undefined''" by (rule null_less_undefined)
  have vn: "ToDateString h (Some v) < js ''null''" by (rule ToDateString_less_null)
  have vu: "ToDateString h (Some v) < js ''undefined''" by (rule ToDateString_less_undefined)
  have 1: "compareUnbound h this Undefined Undefined = Inr 0"
    by (simp add: compareUnbound_def differenceOfStrings_def)
  have 2: "compareUnbound h this (Date (Some v)) Null = Inr (- 1)"
    using vn by (simp add: compareUnbound_def differenceOfStrings_def)
  have 3: "compareUnbound h this (Date (Some v)) Undefined = Inr (- 1)"
    using vu by (simp add: compareUnbound_def differenceOfStrings_def)
  have 4: "compareUnbound h this Null Undefined = Inr (- 1)"
    using nu by (simp add: compareUnbound_def differenceOfStrings_def)
  have 5: "compareUnbound h this Null (Date (Some v)) = Inr 1"
    using vn by (simp add: compareUnbound_def differenceOfStrings_def order.asym)
  have 6: "compareUnbound h this Undefined Null = Inr 1"
    using nu by (simp add: compareUnbound_def differenceOfStrings_def order.asym)
  from 1 2 3 4 5 6 show ?thesis
    by (simp add: compareUnbound_fallback)
qed

theorem fallback_order_witness:
  "\<not> (isValidDate (Date None) \<and> isValidDate Null)
   \<and> String utc_host (Date None) = Inr (js ''Invalid Date'')
   \<and> String utc_host Null = Inr (js ''null'')
   \<and> js ''Invalid Date'' < js ''null''
   \<and> compareUnbound utc_host defaultCollator (Date None) Null = Inr (- 1)
   \<and> compareUnbound utc_host defaultCollator (Date (Some date2020_03_23T17_00)) Null = Inr (- 1)
   \<and> compareUnbound utc_host defaultCollator Undefined Undefined = Inr 0"
  using fallback_order [of utc_host defaultCollator date2020_03_23T17_00 "Date None" Null
      "js ''Invalid Date''" "js ''null''"] String_examples
  by (simp add: js_def)

text \<open>
  C7 (corrected). Claimed: a valid date's text sorts after the text of \<^verbatim>\<open>null\<close>, and
  that after the text of \<^verbatim>\<open>undefined\<close>, so \<open>compare(v, null) > 0\<close> and
  \<open>compare(null, undefined) > 0\<close>. The order is the other way round, as the tests of
  the repository have it: both results are \<open>-1\<close>.
\<close>

theorem null_undefined_counterexample:
  "compareUnbound utc_host defaultCollator Null Undefined = Inr (- 1)
   \<and> compareUnbound utc_host defaultCollator (Date (Some date2020_03_23T17_00)) Null = Inr (- 1)"
  by code_simp

text \<open>
  C7 as amended: in the order of the string fallback a valid date's text sorts before
  the text of \<^verbatim>\<open>null\<close>, and that before the text of \<^verbatim>\<open>undefined\<close>: for every valid date
  \<open>v\<close>, \<open>compare(v, null) < 0\<close>, and \<open>compare(null, undefined) < 0\<close>.
\<close>

theorem valid_date_before_null_before_undefined:
  "String h (Date (Some v)) = Inr (ToDateString h (Some v))
   \<and> ToDateString h (Some v) < js ''null''
   \<and> js ''null'' < js ''undefined''
   \<and> compareUnbound h this (Date (Some v)) Null = Inr (- 1)
   \<and> compareUnbound h this Null Undefined = Inr (- 1)"
  using ToDateString_less_null [of h v] null_less_undefined
  by (simp add: compareUnbound_def differenceOfStrings_def)

text \<open>
  C8 (corrected). Claimed: for every configuration and every pair of inputs of any
  kind, compare returns one of \<open>-1\<close>, \<open>0\<close>, \<open>+1\<close>. Where the conversion of an argument
  by \<^verbatim>\<open>String\<close> raises, compare returns nothing: with a right argument whose
  \<^verbatim>\<open>toString\<close> throws, the exception leaves compare.
\<close>

theorem compare_no_result_counterexample:
  "compareUnbound utc_host defaultCollator Null (Other (Inl Thrown)) = Inl Thrown"
  by (simp add: compareUnbound_def differenceOfStrings_def)

text \<open>
  C8 as amended: for every constructed comparator and every pair of inputs each of
  which is \<^verbatim>\<open>undefined\<close>, \<^verbatim>\<open>null\<close>, a Date object (valid or not) or another value that
  \<^verbatim>\<open>String\<close> converts without raising, compare returns exactly one of \<open>-1\<close>, \<open>0\<close>, \<open>+1\<close>,
  whatever the size of the difference of the components.
\<close>

theorem compare_clamped:
  assumes "DateCollator options = Inr this"
    and "String h leftDate = Inr leftString" and "String h rightDate = Inr rightString"
  shows "compareUnbound h this leftDate rightDate = Inr (- 1)
     \<or> compareUnbound h this leftDate rightDate = Inr 0
     \<or> compareUnbound h this leftDate rightDate = Inr 1"
  using compareUnbound_total [OF assms] by auto

theorem compare_clamped_witness:
  "DateCollator None = Inr defaultCollator
   \<and> String utc_host Null = Inr (js ''null'')
   \<and> String utc_host Undefined = Inr (js ''undefined'')
   \<and> (compareUnbound utc_host defaultCollator Null Undefined = Inr (- 1)
      \<or> compareUnbound utc_host defaultCollator Null Undefined = Inr 0
      \<or> compareUnbound utc_host defaultCollator Null Undefined = Inr 1)"
  using compare_clamped [OF DateCollator_default String_examples(2) String_examples(3)]
    DateCollator_default String_examples
  by simp

text \<open>
  C9. For all valid dates \<open>a\<close> and \<open>b\<close> compared by the same constructed comparator,
  both comparisons return and \<open>sign(compare(a, b)) = -sign(compare(b, a))\<close>.
\<close>

theorem compare_antisymmetric:
  assumes "DateCollator options = Inr this"
  shows "\<exists>m n. compareUnbound h this (Date (Some a)) (Date (Some b)) = Inr m
     \<and> compareUnbound h this (Date (Some b)) (Date (Some a)) = Inr n
     \<and> sgn m = - sgn n"
proof -
  from compareUnbound_valid [OF assms, of h a b] obtain prs where
    "compareUnbound h this (Date (Some a)) (Date (Some b)) = Inr (sgn (firstDifference prs))"
    "compareUnbound h this (Date (Some b)) (Date (Some a)) = Inr (- sgn (firstDifference prs))"
    by blast
  then show ?thesis by (simp add: sgn_if)
qed

theorem compare_antisymmetric_witness:
  "DateCollator None = Inr defaultCollator
   \<and> compareUnbound utc_host defaultCollator
       (Date (Some date2020_03_23T17_00)) (Date (Some date2020_03_27T17_00)) = Inr (- 1)
   \<and> compareUnbound utc_host defaultCollator
       (Date (Some date2020_03_27T17_00)) (Date (Some date2020_03_23T17_00)) = Inr 1
   \<and> sgn (- 1 :: int) = - sgn 1"
  using compare_antisymmetric
    [OF DateCollator_default, of utc_host date2020_03_23T17_00 date2020_03_27T17_00]
    DateCollator_default compare_Monday_Friday
  by simp

text \<open>
  C10. An empty \<^verbatim>\<open>dateSensitivity\<close> array is accepted by the constructor, with a
  \<^verbatim>\<open>dateUsage\<close> that is absent (or falsy) or one of \<^verbatim>\<open>'local'\<close> and \<^verbatim>\<open>'utc'\<close>, and the
  comparator so constructed returns 0 for every pair of valid dates.
\<close>

theorem empty_dateSensitivity:
  assumes "\<not> ToBoolean usage \<or> array_includes DateUsage usage"
  shows "\<exists>this. DateCollator (Some \<lparr> dateSensitivity = OptArray [], dateUsage = usage \<rparr>) = Inr this
     \<and> hidden_dateSensitivity this = []
     \<and> (\<forall>h leftDate rightDate.
           compareUnbound h this (Date (Some leftDate)) (Date (Some rightDate)) = Inr 0)"
proof -
  define this where "this = \<lparr> hidden_dateSensitivity = [],
    hidden_dateUsage = (if ToBoolean usage then usage else OptString (js ''local'')) \<rparr>"
  have inc: "array_includes DateUsage (if ToBoolean usage then usage else OptString (js ''local''))"
    using assms by (auto simp: DateUsage_def)
  have "DateCollator (Some \<lparr> dateSensitivity = OptArray [], dateUsage = usage \<rparr>) = Inr this"
  proof (cases "ToBoolean usage")
    case True
    with inc show ?thesis by (simp add: DateCollator_def Let_def this_def)
  next
    case False
    with inc show ?thesis by (simp add: DateCollator_def Let_def this_def)
  qed
  moreover have "compareUnbound h this (Date (Some l)) (Date (Some r)) = Inr 0" for h l r
    by (simp add: compareUnbound_def differenceOfDates_def this_def)
  moreover have "hidden_dateSensitivity this = []"
    by (simp add: this_def)
  ultimately show ?thesis by blast
qed

theorem empty_dateSensitivity_witness:
  "array_includes DateUsage (OptString (js ''utc''))
   \<and> DateCollator (Some \<lparr> dateSensitivity = OptArray [], dateUsage = OptString (js ''utc'') \<rparr>)
       = Inr \<lparr> hidden_dateSensitivity = [], hidden_dateUsage = OptString (js ''utc'') \<rparr>
   \<and> compareUnbound utc_host
         \<lparr> hidden_dateSensitivity = [], hidden_dateUsage = OptString (js ''utc'') \<rparr>
         (Date (Some date2020_03_23T17_00)) (Date (Some date2020_03_27T17_00)) = Inr 0"
proof -
  have inc: "array_includes DateUsage (OptString (js ''utc''))"
    by (simp add: DateUsage_def)
  have ctor: "DateCollator (Some \<lparr> dateSensitivity = OptArray [],
                                    dateUsage = OptString (js ''utc'') \<rparr>)
      = Inr \<lparr> hidden_dateSensitivity = [], hidden_dateUsage = OptString (js ''utc'') \<rparr>"
    by (simp add: DateCollator_def DateUsage_def js_def)
  from empty_dateSensitivity [of "OptString (js ''utc'')"] inc
  obtain c where c:
    "DateCollator (Some \<lparr> dateSensitivity = OptArray [], dateUsage = OptString (js ''utc'') \<rparr>)
       = Inr c"
    "\<forall>h leftDate rightDate.
       compareUnbound h c (Date (Some leftDate)) (Date (Some rightDate)) = Inr 0"
    by blast
  from c(1) ctor
  have "c = \<lparr> hidden_dateSensitivity = [], hidden_dateUsage = OptString (js ''utc'') \<rparr>"
    by simp
  with c(2) inc ctor show ?thesis by simp
qed

end
